theory Spec2Isabelle
  imports Main "HOL-Library.Sublist" "HOL-Library.Word"
begin

section \<open>Python values, configuration dictionaries and effects\<close>

text \<open>
  The inverter interfaces of EOS connect are Python classes over an untyped configuration
  dictionary. A value of that dictionary (and of a vendor payload) is a \<open>pyval\<close>; a
  \<open>PyDict\<close> keeps its items in insertion order, as a Python dict does. Text is a list of
  characters, each one byte: a \<open>str\<close> is represented by its UTF-8 bytes.

  \<open>str.lower()\<close> belongs to the language's library, whose case tables are not part of
  the repository: wherever the sources call it, the function is a parameter
  \<open>str_lower\<close> of the model, and what is proved holds for every such function.
\<close>

datatype pyval =
    PyNone
  | PyBool bool
  | PyInt int
  | PyStr string
  | PyDict "(string \<times> pyval) list"

type_synonym config = "string \<rightharpoonup> pyval"

text \<open>\<open>config.get(key)\<close> and \<open>config.get(key, default)\<close>.\<close>

definition dict_get :: "config \<Rightarrow> string \<Rightarrow> pyval" where
  "dict_get d k = (case d k of None \<Rightarrow> PyNone | Some v \<Rightarrow> v)"

definition dict_get_default :: "config \<Rightarrow> string \<Rightarrow> pyval \<Rightarrow> pyval" where
  "dict_get_default d k dflt = (case d k of None \<Rightarrow> dflt | Some v \<Rightarrow> v)"

text \<open>
  On a text of ASCII characters \<open>str.lower()\<close> turns the capitals A to Z into a to z
  and leaves every other character alone. \<open>ascii_lower\<close> is that function; it stands
  for \<open>str.lower()\<close> in the closed examples, whose texts are all ASCII, and nowhere
  else.
\<close>

definition ascii_lower_char :: "char \<Rightarrow> char" where
  "ascii_lower_char c =
     (case map_of (zip ''ABCDEFGHIJKLMNOPQRSTUVWXYZ'' ''abcdefghijklmnopqrstuvwxyz'') c of
        None \<Rightarrow> c
      | Some l \<Rightarrow> l)"

definition ascii_lower :: "string \<Rightarrow> string" where
  "ascii_lower s = map ascii_lower_char s"

text \<open>\<open>sep.join(parts)\<close>.\<close>

fun join :: "string \<Rightarrow> string list \<Rightarrow> string" where
  "join sep [] = []"
| "join sep [x] = x"
| "join sep (x # y # ys) = x @ sep @ join sep (y # ys)"

text \<open>
  The exceptions the sources raise. \<open>ValueError\<close> carries the message the factory
  builds; \<open>AttributeError\<close> is what \<open>.lower()\<close> raises on a value that is not a
  \<open>str\<close>; \<open>TypeError\<close> is what instantiating a class with an abstract method left
  raises.
\<close>

datatype error =
    ValueError string
  | NotImplementedError
  | AttributeError
  | TypeError

text \<open>
  A call of a logger method: the logger's name, the level, the message and the arguments
  handed over for \<open>%\<close>-formatting. A message built by an f-string is recorded with
  \<open>%s\<close> for each replacement field, its values as the arguments: turning values into
  text is left to the logging library and is not modelled.
\<close>

datatype log_level = DEBUG | INFO | WARNING

datatype log_call = LogCall string log_level string "pyval list"

section \<open>inverter_base.py: BaseInverter\<close>

text \<open>
  The attributes \<open>BaseInverter.__init__\<close> sets, and \<open>attrs\<close> for the attributes a
  subclass adds on its own.
\<close>

record inverter =
  config :: config
  address :: pyval
  user :: string
  password :: pyval
  max_grid_charge_rate :: pyval
  max_pv_charge_rate :: pyval
  is_authenticated :: bool
  inverter_type :: string
  attrs :: "string \<rightharpoonup> pyval"

text \<open>
  What a method call leaves behind: the value returned or the exception raised, the
  object afterwards, and the logger calls made on the way.
\<close>

record 'a outcome =
  returned :: "error + 'a"
  self_after :: inverter
  log_calls :: "log_call list"

text \<open>What a constructor call leaves behind: the new object or the exception, and the logger calls.\<close>

type_synonym construction = "(error + inverter) \<times> log_call list"

definition base_logger :: string where
  "base_logger = ''__main__.BaseInverter''"

text \<open>
  \<open>BaseInverter.__init__(self, config)\<close>; \<open>cls_name\<close> is
  \<open>self.__class__.__name__\<close> and \<open>str_lower\<close> the library's \<open>str.lower()\<close>.
\<close>

definition BaseInverter_init ::
    "(string \<Rightarrow> string) \<Rightarrow> string \<Rightarrow> config \<Rightarrow> construction" where
  "BaseInverter_init str_lower cls_name cfg =
     (case dict_get_default cfg ''user'' (PyStr ''customer'') of
        PyStr u \<Rightarrow>
          (Inr \<lparr> config = cfg,
                 address = dict_get cfg ''address'',
                 user = str_lower u,
                 password = dict_get_default cfg ''password'' (PyStr ''''),
                 max_grid_charge_rate = dict_get cfg ''max_grid_charge_rate'',
                 max_pv_charge_rate = dict_get cfg ''max_pv_charge_rate'',
                 is_authenticated = False,
                 inverter_type = cls_name,
                 attrs = Map.empty \<rparr>,
           [LogCall base_logger INFO ''[%s] Initialized for %s''
              [PyStr cls_name, dict_get cfg ''address'']])
      | _ \<Rightarrow> (Inl AttributeError, []))"

definition BaseInverter_authenticate :: "inverter \<Rightarrow> bool outcome" where
  "BaseInverter_authenticate self =
     \<lparr> returned = Inr True,
       self_after = self\<lparr>is_authenticated := True\<rparr>,
       log_calls = [LogCall base_logger DEBUG ''[%s] No authentication required''
                      [PyStr (inverter_type self)]] \<rparr>"

text \<open>
  The bodies of the two abstract helpers, reached through \<open>super()\<close>. The call
  \<open>self.set_battery_mode(...)\<close> is dispatched on the object's class, so the class's own
  \<open>set_battery_mode\<close> is a parameter.
\<close>

definition BaseInverter_set_mode_avoid_discharge ::
    "(inverter \<Rightarrow> string \<Rightarrow> bool outcome) \<Rightarrow> inverter \<Rightarrow> bool outcome" where
  "BaseInverter_set_mode_avoid_discharge set_battery_mode self = set_battery_mode self ''hold''"

definition BaseInverter_set_mode_allow_discharge ::
    "(inverter \<Rightarrow> string \<Rightarrow> bool outcome) \<Rightarrow> inverter \<Rightarrow> bool outcome" where
  "BaseInverter_set_mode_allow_discharge set_battery_mode self = set_battery_mode self ''normal''"

definition BaseInverter_api_set_max_pv_charge_rate :: "inverter \<Rightarrow> int \<Rightarrow> unit outcome" where
  "BaseInverter_api_set_max_pv_charge_rate self max_pv_rate =
     \<lparr> returned = Inr (),
       self_after = self,
       log_calls = [LogCall base_logger DEBUG
                      ''[%s] api_set_max_pv_charge_rate(%d W) not implemented (no-op)''
                      [PyStr (inverter_type self), PyInt max_pv_rate]] \<rparr>"

definition BaseInverter_supports_extended_monitoring :: "inverter \<Rightarrow> bool outcome" where
  "BaseInverter_supports_extended_monitoring self =
     \<lparr> returned = Inr False, self_after = self, log_calls = [] \<rparr>"

definition BaseInverter_disconnect :: "inverter \<Rightarrow> unit outcome" where
  "BaseInverter_disconnect self =
     \<lparr> returned = Inr (),
       self_after = self,
       log_calls = [LogCall base_logger INFO ''[%s] Session closed''
                      [PyStr (inverter_type self)]] \<rparr>"

text \<open>\<open>shutdown\<close> calls \<open>self.disconnect()\<close>, again dispatched on the object's class.\<close>

definition BaseInverter_shutdown ::
    "(inverter \<Rightarrow> unit outcome) \<Rightarrow> inverter \<Rightarrow> unit outcome" where
  "BaseInverter_shutdown disconnect self = disconnect self"

text \<open>
  The methods \<open>BaseInverter\<close> marks \<open>@abstractmethod\<close>. A subclass that leaves one of
  them undefined cannot be instantiated: the call of the class raises \<open>TypeError\<close>
  before \<open>__init__\<close> runs.
\<close>

datatype contract_method =
    M_initialize
  | M_set_battery_mode
  | M_set_mode_avoid_discharge
  | M_set_mode_allow_discharge
  | M_set_allow_grid_charging
  | M_get_battery_info
  | M_fetch_inverter_data
  | M_set_mode_force_charge
  | M_connect_inverter
  | M_disconnect_inverter
  | M_supports_extended_monitoring

definition abstractmethods :: "contract_method list" where
  "abstractmethods =
     [M_initialize, M_set_battery_mode, M_set_mode_avoid_discharge,
      M_set_mode_allow_discharge, M_set_allow_grid_charging, M_get_battery_info,
      M_fetch_inverter_data, M_set_mode_force_charge, M_connect_inverter,
      M_disconnect_inverter]"

definition abc_new ::
    "contract_method list \<Rightarrow> (config \<Rightarrow> construction) \<Rightarrow> config \<Rightarrow> construction" where
  "abc_new defined init cfg =
     (if list_all (\<lambda>m. m \<in> set defined) abstractmethods then init cfg
      else (Inl TypeError, []))"

section \<open>inverters/null_inverter.py: NullInverter\<close>

definition null_logger :: string where
  "null_logger = ''__main__.NullInverter''"

definition NullInverter_init :: "(string \<Rightarrow> string) \<Rightarrow> config \<Rightarrow> construction" where
  "NullInverter_init str_lower cfg =
     (case BaseInverter_init str_lower ''NullInverter'' cfg of
        (Inl e, logs) \<Rightarrow> (Inl e, logs)
      | (Inr self, logs) \<Rightarrow>
          (Inr self,
           logs @ [LogCall null_logger INFO
                     ''[NullInverter] Initialized in display-only mode (type: %s)''
                     [dict_get_default cfg ''type'' (PyStr ''unknown'')]]))"

definition NullInverter_initialize :: "inverter \<Rightarrow> unit outcome" where
  "NullInverter_initialize self =
     \<lparr> returned = Inr (),
       self_after = self\<lparr>is_authenticated := True\<rparr>,
       log_calls = [LogCall null_logger DEBUG ''[NullInverter] No initialization required'' []] \<rparr>"

definition NullInverter_connect_inverter :: "inverter \<Rightarrow> bool outcome" where
  "NullInverter_connect_inverter self =
     \<lparr> returned = Inr True,
       self_after = self,
       log_calls = [LogCall null_logger DEBUG
                      ''[NullInverter] connect_inverter() called (no-op)'' []] \<rparr>"

definition NullInverter_disconnect_inverter :: "inverter \<Rightarrow> bool outcome" where
  "NullInverter_disconnect_inverter self =
     \<lparr> returned = Inr True,
       self_after = self,
       log_calls = [LogCall null_logger DEBUG
                      ''[NullInverter] disconnect_inverter() called (no-op)'' []] \<rparr>"

definition NullInverter_set_battery_mode :: "inverter \<Rightarrow> string \<Rightarrow> bool outcome" where
  "NullInverter_set_battery_mode self mode =
     \<lparr> returned = Inr True,
       self_after = self,
       log_calls = [LogCall null_logger DEBUG
                      ''[NullInverter] set_battery_mode(%s) called (no-op)'' [PyStr mode]] \<rparr>"

definition NullInverter_set_mode_avoid_discharge :: "inverter \<Rightarrow> bool outcome" where
  "NullInverter_set_mode_avoid_discharge self =
     \<lparr> returned = Inr True,
       self_after = self,
       log_calls = [LogCall null_logger DEBUG
                      ''[NullInverter] set_mode_avoid_discharge() called (no-op)'' []] \<rparr>"

definition NullInverter_set_mode_allow_discharge :: "inverter \<Rightarrow> bool outcome" where
  "NullInverter_set_mode_allow_discharge self =
     \<lparr> returned = Inr True,
       self_after = self,
       log_calls = [LogCall null_logger DEBUG
                      ''[NullInverter] set_mode_allow_discharge() called (no-op)'' []] \<rparr>"

definition NullInverter_set_mode_force_charge :: "inverter \<Rightarrow> int \<Rightarrow> bool outcome" where
  "NullInverter_set_mode_force_charge self charge_power_w =
     \<lparr> returned = Inr True,
       self_after = self,
       log_calls = [LogCall null_logger DEBUG
                      ''[NullInverter] set_mode_force_charge(%d W) called (no-op)''
                      [PyInt charge_power_w]] \<rparr>"

definition NullInverter_set_allow_grid_charging :: "inverter \<Rightarrow> bool \<Rightarrow> unit outcome" where
  "NullInverter_set_allow_grid_charging self v =
     \<lparr> returned = Inr (),
       self_after = self,
       log_calls = [LogCall null_logger DEBUG
                      ''[NullInverter] set_allow_grid_charging(%s) called (no-op)''
                      [PyBool v]] \<rparr>"

definition NullInverter_get_battery_info :: "inverter \<Rightarrow> (string \<times> pyval) list outcome" where
  "NullInverter_get_battery_info self =
     \<lparr> returned = Inr [],
       self_after = self,
       log_calls = [LogCall null_logger DEBUG
                      ''[NullInverter] get_battery_info() called (no-op)'' []] \<rparr>"

definition NullInverter_fetch_inverter_data :: "inverter \<Rightarrow> (string \<times> pyval) list outcome" where
  "NullInverter_fetch_inverter_data self =
     \<lparr> returned = Inr [],
       self_after = self,
       log_calls = [LogCall null_logger DEBUG
                      ''[NullInverter] fetch_inverter_data() called (no-op)'' []] \<rparr>"

definition NullInverter_supports_extended_monitoring :: "inverter \<Rightarrow> bool outcome" where
  "NullInverter_supports_extended_monitoring self =
     \<lparr> returned = Inr False, self_after = self, log_calls = [] \<rparr>"

text \<open>The contract methods the class body of \<open>NullInverter\<close> defines.\<close>

definition NullInverter_methods :: "contract_method list" where
  "NullInverter_methods =
     [M_initialize, M_connect_inverter, M_disconnect_inverter, M_set_battery_mode,
      M_set_mode_avoid_discharge, M_set_mode_allow_discharge, M_set_mode_force_charge,
      M_set_allow_grid_charging, M_get_battery_info, M_fetch_inverter_data,
      M_supports_extended_monitoring]"

section \<open>inverters/victron.py: VictronInverter\<close>

definition VictronInverter_init :: "(string \<Rightarrow> string) \<Rightarrow> config \<Rightarrow> construction" where
  "VictronInverter_init str_lower cfg = BaseInverter_init str_lower ''VictronInverter'' cfg"

text \<open>Every method of the class body is the one statement \<open>raise NotImplementedError\<close>.\<close>

definition not_implemented :: "inverter \<Rightarrow> 'a outcome" where
  "not_implemented self =
     \<lparr> returned = Inl NotImplementedError, self_after = self, log_calls = [] \<rparr>"

definition VictronInverter_initialize :: "inverter \<Rightarrow> unit outcome" where
  "VictronInverter_initialize self = not_implemented self"

definition VictronInverter_set_mode_avoid_discharge :: "inverter \<Rightarrow> bool outcome" where
  "VictronInverter_set_mode_avoid_discharge self = not_implemented self"

definition VictronInverter_set_mode_allow_discharge :: "inverter \<Rightarrow> bool outcome" where
  "VictronInverter_set_mode_allow_discharge self = not_implemented self"

definition VictronInverter_set_allow_grid_charging :: "inverter \<Rightarrow> bool \<Rightarrow> unit outcome" where
  "VictronInverter_set_allow_grid_charging self v = not_implemented self"

definition VictronInverter_set_battery_mode :: "inverter \<Rightarrow> string \<Rightarrow> bool outcome" where
  "VictronInverter_set_battery_mode self mode = not_implemented self"

definition VictronInverter_get_battery_info :: "inverter \<Rightarrow> (string \<times> pyval) list outcome" where
  "VictronInverter_get_battery_info self = not_implemented self"

definition VictronInverter_fetch_inverter_data :: "inverter \<Rightarrow> (string \<times> pyval) list outcome" where
  "VictronInverter_fetch_inverter_data self = not_implemented self"

definition VictronInverter_set_mode_force_charge :: "inverter \<Rightarrow> int \<Rightarrow> bool outcome" where
  "VictronInverter_set_mode_force_charge self charge_power_w = not_implemented self"

definition VictronInverter_connect_inverter :: "inverter \<Rightarrow> bool outcome" where
  "VictronInverter_connect_inverter self = not_implemented self"

definition VictronInverter_disconnect_inverter :: "inverter \<Rightarrow> bool outcome" where
  "VictronInverter_disconnect_inverter self = not_implemented self"

definition VictronInverter_methods :: "contract_method list" where
  "VictronInverter_methods =
     [M_initialize, M_set_mode_avoid_discharge, M_set_mode_allow_discharge,
      M_set_allow_grid_charging, M_set_battery_mode, M_get_battery_info,
      M_fetch_inverter_data, M_set_mode_force_charge, M_connect_inverter,
      M_disconnect_inverter]"

section \<open>tests/interfaces/test_base_inverter.py: MockInverter\<close>

text \<open>
  The test suite's subclass of \<open>BaseInverter\<close>. It has no \<open>__init__\<close> of its own, keeps
  what it is told in attributes of its own, and reaches the base class's helper bodies
  through \<open>super()\<close>.
\<close>

definition MockInverter_init :: "(string \<Rightarrow> string) \<Rightarrow> config \<Rightarrow> construction" where
  "MockInverter_init str_lower cfg = BaseInverter_init str_lower ''MockInverter'' cfg"

definition set_attr :: "inverter \<Rightarrow> string \<Rightarrow> pyval \<Rightarrow> inverter" where
  "set_attr self name v = self\<lparr>attrs := (attrs self)(name \<mapsto> v)\<rparr>"

definition MockInverter_initialize :: "inverter \<Rightarrow> unit outcome" where
  "MockInverter_initialize self =
     \<lparr> returned = Inr (),
       self_after = set_attr self ''inverter_connected'' (PyBool True),
       log_calls = [] \<rparr>"

definition MockInverter_connect_inverter :: "inverter \<Rightarrow> bool outcome" where
  "MockInverter_connect_inverter self =
     \<lparr> returned = Inr True,
       self_after = set_attr self ''inverter_connected'' (PyBool True),
       log_calls = [] \<rparr>"

definition MockInverter_disconnect_inverter :: "inverter \<Rightarrow> bool outcome" where
  "MockInverter_disconnect_inverter self =
     \<lparr> returned = Inr True,
       self_after = set_attr self ''inverter_connected'' (PyBool False),
       log_calls = [] \<rparr>"

definition MockInverter_set_battery_mode :: "inverter \<Rightarrow> string \<Rightarrow> bool outcome" where
  "MockInverter_set_battery_mode self mode =
     \<lparr> returned = Inr True,
       self_after = set_attr self ''last_mode_set'' (PyStr mode),
       log_calls = [] \<rparr>"

definition MockInverter_get_battery_info :: "inverter \<Rightarrow> (string \<times> pyval) list outcome" where
  "MockInverter_get_battery_info self =
     \<lparr> returned = Inr [(''charge'', PyInt 50), (''status'', PyStr ''ok'')],
       self_after = self,
       log_calls = [] \<rparr>"

definition MockInverter_fetch_inverter_data :: "inverter \<Rightarrow> (string \<times> pyval) list outcome" where
  "MockInverter_fetch_inverter_data self =
     \<lparr> returned = Inr [(''voltage'', PyInt 230), (''current'', PyInt 10)],
       self_after = self,
       log_calls = [] \<rparr>"

definition MockInverter_set_mode_force_charge :: "inverter \<Rightarrow> int \<Rightarrow> bool outcome" where
  "MockInverter_set_mode_force_charge self charge_power_w =
     \<lparr> returned = Inr True,
       self_after = set_attr self ''forced_charge_power'' (PyInt charge_power_w),
       log_calls = [] \<rparr>"

definition MockInverter_set_allow_grid_charging :: "inverter \<Rightarrow> bool \<Rightarrow> unit outcome" where
  "MockInverter_set_allow_grid_charging self v =
     \<lparr> returned = Inr (),
       self_after = set_attr self ''grid_charging_allowed'' (PyBool v),
       log_calls = [] \<rparr>"

definition MockInverter_set_mode_allow_discharge :: "inverter \<Rightarrow> bool outcome" where
  "MockInverter_set_mode_allow_discharge self =
     BaseInverter_set_mode_allow_discharge MockInverter_set_battery_mode self"

definition MockInverter_set_mode_avoid_discharge :: "inverter \<Rightarrow> bool outcome" where
  "MockInverter_set_mode_avoid_discharge self =
     BaseInverter_set_mode_avoid_discharge MockInverter_set_battery_mode self"

section \<open>inverters/inverter_factory.py\<close>

text \<open>
  The classes the two registries name. \<open>VictronInverter\<close> and \<open>NullInverter\<close> are the
  classes above; the modules of \<open>FroniusV2\<close> and \<open>FroniusLegacy\<close> are not among the
  sources, so what calling those two classes does is a parameter of the factory.
\<close>

datatype backend_class = VictronInverter | FroniusV2 | NullInverter | FroniusLegacy

fun class_name :: "backend_class \<Rightarrow> string" where
  "class_name VictronInverter = ''VictronInverter''"
| "class_name FroniusV2 = ''FroniusV2''"
| "class_name NullInverter = ''NullInverter''"
| "class_name FroniusLegacy = ''FroniusLegacy''"

text \<open>The registries, in the order the dict literals list their keys.\<close>

definition INVERTER_TYPES :: "(string \<times> backend_class) list" where
  "INVERTER_TYPES =
     [(''victron'', VictronInverter),
      (''fronius_gen24'', FroniusV2),
      (''evcc'', NullInverter),
      (''default'', NullInverter)]"

definition LEGACY_INVERTER_TYPES :: "(string \<times> backend_class) list" where
  "LEGACY_INVERTER_TYPES =
     [(''fronius_gen24_legacy'', FroniusLegacy),
      (''fronius_gen24_v2'', FroniusV2)]"

text \<open>
  \<open>cls(config)\<close>: the abstract-method check of \<open>ABC\<close>, then the class's \<open>__init__\<close>.
\<close>

fun instantiate ::
    "(string \<Rightarrow> string) \<Rightarrow> (config \<Rightarrow> construction) \<Rightarrow> (config \<Rightarrow> construction)
      \<Rightarrow> backend_class \<Rightarrow> config \<Rightarrow> construction" where
  "instantiate str_lower fronius_legacy fronius_v2 VictronInverter cfg =
     abc_new VictronInverter_methods (VictronInverter_init str_lower) cfg"
| "instantiate str_lower fronius_legacy fronius_v2 NullInverter cfg =
     abc_new NullInverter_methods (NullInverter_init str_lower) cfg"
| "instantiate str_lower fronius_legacy fronius_v2 FroniusV2 cfg = fronius_v2 cfg"
| "instantiate str_lower fronius_legacy fronius_v2 FroniusLegacy cfg = fronius_legacy cfg"

definition factory_logger :: string where
  "factory_logger = ''src.interfaces.inverters.inverter_factory''"

definition apostrophe :: char where
  "apostrophe = CHR 0x27"

definition unknown_type_message :: "string \<Rightarrow> string list \<Rightarrow> string" where
  "unknown_type_message type_key supported =
     ''Unknown inverter type: '' @ [apostrophe] @ type_key @ [apostrophe]
       @ ''. Supported types: '' @ join '', '' supported"

definition after_log :: "log_call \<Rightarrow> construction \<Rightarrow> construction" where
  "after_log l c = (fst c, l # snd c)"

text \<open>
  \<open>create_inverter(config)\<close>, with the library's \<open>str.lower()\<close>, the two module-level
  registries and the meaning of \<open>cls(config)\<close> as parameters; \<open>type_key\<close> is the
  source's local \<open>inverter_type\<close>.
\<close>

definition create_inverter_in ::
    "(string \<Rightarrow> string) \<Rightarrow> (string \<times> backend_class) list \<Rightarrow> (string \<times> backend_class) list
      \<Rightarrow> (backend_class \<Rightarrow> config \<Rightarrow> construction) \<Rightarrow> config \<Rightarrow> construction" where
  "create_inverter_in str_lower active legacy new cfg =
     (case dict_get_default cfg ''type'' (PyStr []) of
        PyStr t \<Rightarrow>
          (let type_key = str_lower t in
           case map_of active type_key of
             Some c \<Rightarrow>
               after_log
                 (LogCall factory_logger INFO ''[Factory] Creating modern inverter '%s' (%s)''
                    [PyStr type_key, PyStr (class_name c)])
                 (new c cfg)
           | None \<Rightarrow>
               (case map_of legacy type_key of
                  Some c \<Rightarrow>
                    after_log
                      (LogCall factory_logger WARNING
                         (''[Factory] Creating legacy inverter '%s' (%s). ''
                            @ ''Consider updating to a modern type for future compatibility.'')
                         [PyStr type_key, PyStr (class_name c)])
                      (new c cfg)
                | None \<Rightarrow>
                    (Inl (ValueError
                            (unknown_type_message type_key
                               (map fst active @ map fst legacy))),
                     [])))
      | _ \<Rightarrow> (Inl AttributeError, []))"

definition create_inverter ::
    "(string \<Rightarrow> string) \<Rightarrow> (config \<Rightarrow> construction) \<Rightarrow> (config \<Rightarrow> construction)
      \<Rightarrow> config \<Rightarrow> construction" where
  "create_inverter str_lower fronius_legacy fronius_v2 cfg =
     create_inverter_in str_lower INVERTER_TYPES LEGACY_INVERTER_TYPES
       (instantiate str_lower fronius_legacy fronius_v2) cfg"

section \<open>Objects of the test suites\<close>

text \<open>
  \<open>null_config_default\<close> of test_null_inverter.py and \<open>victron_config\<close> of
  test_victron.py, and the objects \<open>NullInverter(null_config_default)\<close> and
  \<open>VictronInverter(victron_config)\<close>. Neither config has a \<open>user\<close> entry, so the
  user of both objects is the lowered default, \<open>customer\<close>.
\<close>

definition null_config_default :: config where
  "null_config_default =
     [''type'' \<mapsto> PyStr ''default'',
      ''address'' \<mapsto> PyStr ''192.168.1.100'',
      ''max_grid_charge_rate'' \<mapsto> PyInt 5000,
      ''max_pv_charge_rate'' \<mapsto> PyInt 5000]"

definition victron_config :: config where
  "victron_config =
     [''address'' \<mapsto> PyStr ''192.168.1.200'',
      ''max_pv_charge_rate'' \<mapsto> PyInt 15000,
      ''max_grid_charge_rate'' \<mapsto> PyInt 10000,
      ''type'' \<mapsto> PyStr ''victron'']"

definition fresh_null :: inverter where
  "fresh_null =
     \<lparr> config = null_config_default,
       address = PyStr ''192.168.1.100'',
       user = ''customer'',
       password = PyStr [],
       max_grid_charge_rate = PyInt 5000,
       max_pv_charge_rate = PyInt 5000,
       is_authenticated = False,
       inverter_type = ''NullInverter'',
       attrs = Map.empty \<rparr>"

definition fresh_victron :: inverter where
  "fresh_victron =
     \<lparr> config = victron_config,
       address = PyStr ''192.168.1.200'',
       user = ''customer'',
       password = PyStr [],
       max_grid_charge_rate = PyInt 10000,
       max_pv_charge_rate = PyInt 15000,
       is_authenticated = False,
       inverter_type = ''VictronInverter'',
       attrs = Map.empty \<rparr>"

section \<open>The Fronius modules, from the specification\<close>

text \<open>
  Modelled from the spec: inverters/fronius_legacy.py and inverters/fronius_v2.py are
  not among the sources; only their tests are. The spec keeps the handshake out of
  construction (\<open>initialize()\<close> does the heavy setup, \<open>authenticate()\<close> establishes
  the session), and its scenarios and the tests construct \<open>FroniusLegacy\<close> and
  \<open>FroniusV2\<close> from a config and find instances of \<open>BaseInverter\<close> with \<open>address\<close>,
  \<open>user\<close> and \<open>password\<close> as \<open>BaseInverter.__init__\<close> sets them, \<open>min_soc\<close> 5,
  \<open>max_soc\<close> 100, an unknown \<open>capacity\<close> of -1, and the session's counters at their
  initial values. The two constructors below do that and nothing else.
\<close>

text \<open>
  Modelled from the spec: the constructor of \<open>FroniusLegacy\<close> (fronius_legacy.py, not
  among the sources): \<open>BaseInverter.__init__\<close>, then the battery bounds and the new
  session as attributes.
\<close>

definition FroniusLegacy_init :: "(string \<Rightarrow> string) \<Rightarrow> config \<Rightarrow> construction" where
  "FroniusLegacy_init str_lower cfg =
     (case BaseInverter_init str_lower ''FroniusLegacy'' cfg of
        (Inl e, logs) \<Rightarrow> (Inl e, logs)
      | (Inr self, logs) \<Rightarrow>
          (Inr (self\<lparr>attrs :=
                  [''min_soc'' \<mapsto> PyInt 5, ''max_soc'' \<mapsto> PyInt 100,
                   ''capacity'' \<mapsto> PyInt (- 1), ''subsequent_login'' \<mapsto> PyBool False,
                   ''ncvalue_num'' \<mapsto> PyInt 1, ''login_attempts'' \<mapsto> PyInt 0]\<rparr>),
           logs))"

text \<open>
  Modelled from the spec: the constructor of \<open>FroniusV2\<close> (fronius_v2.py, not among
  the sources): \<open>BaseInverter.__init__\<close>, then the battery bounds and the new session
  as attributes, the stronger algorithm selected.
\<close>

definition FroniusV2_init :: "(string \<Rightarrow> string) \<Rightarrow> config \<Rightarrow> construction" where
  "FroniusV2_init str_lower cfg =
     (case BaseInverter_init str_lower ''FroniusV2'' cfg of
        (Inl e, logs) \<Rightarrow> (Inl e, logs)
      | (Inr self, logs) \<Rightarrow>
          (Inr (self\<lparr>attrs :=
                  [''min_soc'' \<mapsto> PyInt 5, ''max_soc'' \<mapsto> PyInt 100,
                   ''subsequent_login'' \<mapsto> PyBool False, ''ncvalue_num'' \<mapsto> PyInt 1,
                   ''algorithm'' \<mapsto> PyStr ''SHA256'', ''login_attempts'' \<mapsto> PyInt 0]\<rparr>),
           logs))"

subsection \<open>The telemetry normalizer\<close>

text \<open>
  Modelled from the spec: \<open>strip_dict\<close> of the two Fronius modules is missing from the
  sources. The spec: the normalizer produces a snapshot with the public fields only,
  drops every internal field (named with a leading marker character, the underscore of
  the tests), and passes an input that is not a mapping through unchanged.
\<close>

text \<open>
  Modelled from the spec: the naming convention of internal fields, a leading underscore
  (the test of \<open>strip_dict\<close>, missing from the sources).
\<close>

definition is_internal_key :: "string \<Rightarrow> bool" where
  "is_internal_key k = (case k of [] \<Rightarrow> False | c # _ \<Rightarrow> c = CHR ''_'')"

text \<open>
  Modelled from the spec: \<open>strip_dict(original)\<close> of the Fronius modules, missing from
  the sources. A dict keeps its public items, in their order; anything else is returned
  as it is.
\<close>

definition strip_dict :: "pyval \<Rightarrow> pyval" where
  "strip_dict original =
     (case original of
        PyDict items \<Rightarrow> PyDict (filter (\<lambda>(k, v). \<not> is_internal_key k) items)
      | _ \<Rightarrow> original)"

text \<open>The dict of \<open>test_strip_dict_removes_underscore_keys\<close>.\<close>

definition test_dict :: "(string \<times> pyval) list" where
  "test_dict =
     [(''key'', PyStr ''value''), (''_private'', PyStr ''hidden''),
      (''public'', PyStr ''visible'')]"

subsection \<open>The hash helpers\<close>

text \<open>
  Modelled from the spec: \<open>hash_utf8\<close> of fronius_legacy.py and \<open>hash_utf8_md5\<close>,
  \<open>hash_utf8_sha256\<close> of fronius_v2.py are missing from the sources. The spec: pure
  functions from a text or bytes input to a hex digest of fixed length, the legacy
  algorithm's of 32 and the modern one's of 64 characters. The digest algorithms belong
  to the hash library and are parameters, \<open>md5\<close> with its digest of 128 and \<open>sha256\<close>
  with its digest of 256 bits; a text is hashed as its UTF-8 bytes, and the digest is
  written byte by byte in lowercase hexadecimal.
\<close>

datatype hash_input = Text string | Bytes "8 word list"

text \<open>
  Modelled from the spec: the bytes that are hashed, missing from the sources with the
  helpers. A text is already kept as its UTF-8 bytes; bytes are taken as they are.
\<close>

definition encode_utf8 :: "string \<Rightarrow> 8 word list" where
  "encode_utf8 s = map of_char s"

definition to_bytes :: "hash_input \<Rightarrow> 8 word list" where
  "to_bytes x = (case x of Text s \<Rightarrow> encode_utf8 s | Bytes b \<Rightarrow> b)"

text \<open>
  Modelled from the spec: the hex digest of the hash library, two lowercase hexadecimal
  digits for each byte of the digest, the most significant byte first.
\<close>

definition hex_digit :: "nat \<Rightarrow> char" where
  "hex_digit n = ''0123456789abcdef'' ! (n mod 16)"

definition hex_byte :: "8 word \<Rightarrow> string" where
  "hex_byte b = [hex_digit (unat b div 16), hex_digit (unat b mod 16)]"

definition digest_bytes :: "'a::len word \<Rightarrow> 8 word list" where
  "digest_bytes w = map (\<lambda>i. ucast (drop_bit (8 * i) w)) (rev [0..<LENGTH('a) div 8])"

definition hexdigest :: "'a::len word \<Rightarrow> string" where
  "hexdigest w = concat (map hex_byte (digest_bytes w))"

text \<open>
  Modelled from the spec: \<open>hash_utf8(x)\<close> of fronius_legacy.py, missing from the
  sources: the legacy algorithm's hex digest of a text or bytes input.
\<close>

definition hash_utf8 :: "(8 word list \<Rightarrow> 128 word) \<Rightarrow> hash_input \<Rightarrow> string" where
  "hash_utf8 md5 x = hexdigest (md5 (to_bytes x))"

text \<open>
  Modelled from the spec: \<open>hash_utf8_md5(x)\<close> and \<open>hash_utf8_sha256(x)\<close> of
  fronius_v2.py, missing from the sources: the hex digests of the two algorithms the
  modern backend chooses between.
\<close>

definition hash_utf8_md5 :: "(8 word list \<Rightarrow> 128 word) \<Rightarrow> hash_input \<Rightarrow> string" where
  "hash_utf8_md5 md5 x = hexdigest (md5 (to_bytes x))"

definition hash_utf8_sha256 :: "(8 word list \<Rightarrow> 256 word) \<Rightarrow> hash_input \<Rightarrow> string" where
  "hash_utf8_sha256 sha256 x = hexdigest (sha256 (to_bytes x))"

subsection \<open>The authentication session\<close>

text \<open>
  Modelled from the spec: the digest authentication of the two Fronius modules is
  missing from the sources; the field names are the ones their tests read. The spec: a
  session holds the current nonce, a nonce-use counter that starts at 1, the selected
  hash algorithm, a flag telling a first login from a renewed one, and a bounded
  login-attempt counter. Each authenticated request includes the counter in the response
  computation and increments it. A stale nonce makes the client take a new challenge,
  restart the counter and reset the flag to first. Past the cap on attempts
  authentication fails and nothing more is sent; a success resets the attempt counter.
  The cap and the server's answer are parameters.
\<close>

datatype hash_algorithm = MD5 | SHA256

record auth_session =
  nonce :: "string option"
  ncvalue_num :: int
  algorithm :: hash_algorithm
  subsequent_login :: bool
  login_attempts :: int

text \<open>
  Modelled from the spec: the session a Fronius constructor sets up (missing from the
  sources; the tests read \<open>ncvalue_num\<close> 1, \<open>subsequent_login\<close> false and
  \<open>login_attempts\<close> 0 off a new object). No nonce is known before the first challenge.
\<close>

definition new_session :: "hash_algorithm \<Rightarrow> auth_session" where
  "new_session alg =
     \<lparr> nonce = None, ncvalue_num = 1, algorithm = alg,
       subsequent_login = False, login_attempts = 0 \<rparr>"

datatype auth_error = AuthenticationError

datatype server_reply = Accepted | StaleNonce string | Rejected

text \<open>
  Modelled from the spec: an authenticated request of the Fronius modules, missing from
  the sources. It yields the counter value that goes into the response computation, and
  the session with the counter incremented.
\<close>

definition authenticated_request :: "auth_session \<Rightarrow> int \<times> auth_session" where
  "authenticated_request s = (ncvalue_num s, s\<lparr>ncvalue_num := ncvalue_num s + 1\<rparr>)"

text \<open>
  What one login leaves behind: the result, the counter value the request carried (none
  when no request was sent) and the session afterwards.
\<close>

record login =
  login_result :: "auth_error + bool"
  nc_sent :: "int option"
  session_after :: auth_session

text \<open>
  Modelled from the spec: one login of the Fronius modules, missing from the sources.
  At the cap it fails without a request. Below it the attempt is counted and an
  authenticated request is made; acceptance marks the session as logged in and resets
  the attempt counter, a stale nonce brings a new nonce, restarts the counter at 1 and
  resets the flag to first, a rejection changes nothing more.
\<close>

definition authenticate :: "int \<Rightarrow> server_reply \<Rightarrow> auth_session \<Rightarrow> login" where
  "authenticate cap reply s =
     (if cap \<le> login_attempts s then
        \<lparr> login_result = Inl AuthenticationError, nc_sent = None, session_after = s \<rparr>
      else
        (case authenticated_request (s\<lparr>login_attempts := login_attempts s + 1\<rparr>) of
           (nc, s1) \<Rightarrow>
             (case reply of
                Accepted \<Rightarrow>
                  \<lparr> login_result = Inr True, nc_sent = Some nc,
                    session_after = s1\<lparr>subsequent_login := True, login_attempts := 0\<rparr> \<rparr>
              | StaleNonce n \<Rightarrow>
                  \<lparr> login_result = Inr False, nc_sent = Some nc,
                    session_after =
                      s1\<lparr>nonce := Some n, ncvalue_num := 1, subsequent_login := False\<rparr> \<rparr>
              | Rejected \<Rightarrow>
                  \<lparr> login_result = Inr False, nc_sent = Some nc, session_after = s1 \<rparr>)))"

section \<open>Unfolding and evaluation\<close>

lemmas null_defs =
  NullInverter_initialize_def NullInverter_connect_inverter_def
  NullInverter_disconnect_inverter_def NullInverter_set_battery_mode_def
  NullInverter_set_mode_avoid_discharge_def NullInverter_set_mode_allow_discharge_def
  NullInverter_set_mode_force_charge_def NullInverter_set_allow_grid_charging_def
  NullInverter_get_battery_info_def NullInverter_fetch_inverter_data_def
  NullInverter_supports_extended_monitoring_def

lemmas victron_defs =
  not_implemented_def VictronInverter_initialize_def
  VictronInverter_set_mode_avoid_discharge_def VictronInverter_set_mode_allow_discharge_def
  VictronInverter_set_allow_grid_charging_def VictronInverter_set_battery_mode_def
  VictronInverter_get_battery_info_def VictronInverter_fetch_inverter_data_def
  VictronInverter_set_mode_force_charge_def VictronInverter_connect_inverter_def
  VictronInverter_disconnect_inverter_def

lemmas mock_defs =
  set_attr_def MockInverter_initialize_def MockInverter_connect_inverter_def
  MockInverter_disconnect_inverter_def MockInverter_set_battery_mode_def
  MockInverter_get_battery_info_def MockInverter_fetch_inverter_data_def
  MockInverter_set_mode_force_charge_def MockInverter_set_allow_grid_charging_def
  MockInverter_set_mode_allow_discharge_def MockInverter_set_mode_avoid_discharge_def
  BaseInverter_set_mode_avoid_discharge_def BaseInverter_set_mode_allow_discharge_def

lemmas base_defs =
  BaseInverter_authenticate_def BaseInverter_api_set_max_pv_charge_rate_def
  BaseInverter_supports_extended_monitoring_def BaseInverter_disconnect_def
  BaseInverter_shutdown_def

lemmas eval_defs =
  dict_get_def dict_get_default_def ascii_lower_def ascii_lower_char_def

subsection \<open>Constructors\<close>

lemma base_init_ok:
  "dict_get_default cfg ''user'' (PyStr ''customer'') = PyStr u \<Longrightarrow>
   \<exists>self. fst (BaseInverter_init str_lower n cfg) = Inr self \<and> inverter_type self = n \<and> config self = cfg"
  by (simp add: BaseInverter_init_def)

lemma base_init_unauth:
  "fst (BaseInverter_init str_lower n cfg) = Inr self \<Longrightarrow> \<not> is_authenticated self"
  by (auto simp: BaseInverter_init_def split: pyval.splits)

lemma null_init_fst: "fst (NullInverter_init str_lower cfg) = fst (BaseInverter_init str_lower ''NullInverter'' cfg)"
  by (auto simp: NullInverter_init_def split: prod.splits sum.splits)

lemma null_init_default: "fst (NullInverter_init ascii_lower null_config_default) = Inr fresh_null"
  by (simp add: null_init_fst BaseInverter_init_def null_config_default_def
      fresh_null_def eval_defs)

lemma victron_init_config: "fst (VictronInverter_init ascii_lower victron_config) = Inr fresh_victron"
  by (simp add: VictronInverter_init_def BaseInverter_init_def victron_config_def
      fresh_victron_def eval_defs)

lemma fronius_legacy_init_ok:
  "dict_get_default cfg ''user'' (PyStr ''customer'') = PyStr u \<Longrightarrow>
   \<exists>self. fst (FroniusLegacy_init str_lower cfg) = Inr self
      \<and> inverter_type self = ''FroniusLegacy'' \<and> config self = cfg"
  by (simp add: FroniusLegacy_init_def BaseInverter_init_def)

lemma fronius_v2_init_ok:
  "dict_get_default cfg ''user'' (PyStr ''customer'') = PyStr u \<Longrightarrow>
   \<exists>self. fst (FroniusV2_init str_lower cfg) = Inr self
      \<and> inverter_type self = ''FroniusV2'' \<and> config self = cfg"
  by (simp add: FroniusV2_init_def BaseInverter_init_def)

lemma fronius_legacy_init_unauth:
  "fst (FroniusLegacy_init str_lower cfg) = Inr self \<Longrightarrow> \<not> is_authenticated self"
  by (auto simp: FroniusLegacy_init_def BaseInverter_init_def split: pyval.splits)

lemma fronius_v2_init_unauth:
  "fst (FroniusV2_init str_lower cfg) = Inr self \<Longrightarrow> \<not> is_authenticated self"
  by (auto simp: FroniusV2_init_def BaseInverter_init_def split: pyval.splits)

lemma abc_null: "abc_new NullInverter_methods init cfg = init cfg"
  by (simp add: abc_new_def NullInverter_methods_def abstractmethods_def)

lemma abc_victron: "abc_new VictronInverter_methods init cfg = init cfg"
  by (simp add: abc_new_def VictronInverter_methods_def abstractmethods_def)

lemma instantiate_unauth:
  "fst (instantiate str_lower (FroniusLegacy_init str_lower) (FroniusV2_init str_lower) c cfg)
     = Inr self \<Longrightarrow> \<not> is_authenticated self"
proof (cases c)
  case VictronInverter
  then show "fst (instantiate str_lower (FroniusLegacy_init str_lower)
                (FroniusV2_init str_lower) c cfg) = Inr self \<Longrightarrow> \<not> is_authenticated self"
    using base_init_unauth[of str_lower "''VictronInverter''" cfg self]
    by (simp add: abc_victron VictronInverter_init_def)
next
  case FroniusV2
  then show "fst (instantiate str_lower (FroniusLegacy_init str_lower)
                (FroniusV2_init str_lower) c cfg) = Inr self \<Longrightarrow> \<not> is_authenticated self"
    using fronius_v2_init_unauth[of str_lower cfg self] by simp
next
  case NullInverter
  then show "fst (instantiate str_lower (FroniusLegacy_init str_lower)
                (FroniusV2_init str_lower) c cfg) = Inr self \<Longrightarrow> \<not> is_authenticated self"
    using base_init_unauth[of str_lower "''NullInverter''" cfg self]
    by (simp add: abc_null null_init_fst)
next
  case FroniusLegacy
  then show "fst (instantiate str_lower (FroniusLegacy_init str_lower)
                (FroniusV2_init str_lower) c cfg) = Inr self \<Longrightarrow> \<not> is_authenticated self"
    using fronius_legacy_init_unauth[of str_lower cfg self] by simp
qed

subsection \<open>The factory's three branches\<close>

lemma create_returns_an_instance_of_new:
  "fst (create_inverter_in str_lower active legacy new cfg) = Inr self \<Longrightarrow>
   \<exists>c. fst (new c cfg) = Inr self"
  by (auto simp: create_inverter_in_def after_log_def Let_def
      split: pyval.splits option.splits)

lemma create_active:
  "dict_get_default cfg ''type'' (PyStr []) = PyStr t \<Longrightarrow> map_of active (str_lower t) = Some c \<Longrightarrow>
   fst (create_inverter_in str_lower active legacy new cfg) = fst (new c cfg)"
  by (simp add: create_inverter_in_def after_log_def)

lemma create_legacy:
  "dict_get_default cfg ''type'' (PyStr []) = PyStr t \<Longrightarrow> map_of active (str_lower t) = None \<Longrightarrow>
   map_of legacy (str_lower t) = Some c \<Longrightarrow>
   fst (create_inverter_in str_lower active legacy new cfg) = fst (new c cfg)"
  by (simp add: create_inverter_in_def after_log_def)

lemma create_unknown:
  "dict_get_default cfg ''type'' (PyStr []) = PyStr t \<Longrightarrow> map_of active (str_lower t) = None \<Longrightarrow>
   map_of legacy (str_lower t) = None \<Longrightarrow>
   fst (create_inverter_in str_lower active legacy new cfg) =
     Inl (ValueError (unknown_type_message (str_lower t) (map fst active @ map fst legacy)))"
  by (simp add: create_inverter_in_def)

text \<open>Every part of a joined text occurs in it, so the message names every supported type.\<close>

lemma sublist_join: "k \<in> set ks \<Longrightarrow> sublist k (join sep ks)"
proof (induction sep ks rule: join.induct)
  case (1 sep)
  then show ?case by simp
next
  case (2 sep x)
  then show ?case by simp
next
  case (3 sep x y ys)
  show ?case
  proof (cases "k = x")
    case True
    then show ?thesis by simp
  next
    case False
    with 3 have "sublist k (join sep (y # ys))" by simp
    then obtain ps ss where "join sep (y # ys) = ps @ k @ ss"
      by (auto simp: sublist_def)
    then have "join sep (x # y # ys) = (x @ sep @ ps) @ k @ ss" by simp
    then show ?thesis unfolding sublist_def by blast
  qed
qed

lemma message_lists: "k \<in> set supported \<Longrightarrow> sublist k (unknown_type_message t supported)"
proof -
  assume "k \<in> set supported"
  then obtain ps ss where "join '', '' supported = ps @ k @ ss"
    using sublist_join[of k supported "'', ''"] by (auto simp: sublist_def)
  then have "unknown_type_message t supported =
      (''Unknown inverter type: '' @ [apostrophe] @ t @ [apostrophe]
         @ ''. Supported types: '' @ ps) @ k @ ss"
    by (simp add: unknown_type_message_def)
  then show ?thesis unfolding sublist_def by blast
qed

subsection \<open>Filtering items, hexadecimal digests\<close>

lemma map_of_filter_key:
  "map_of (filter (\<lambda>(k, v). P k) kvs) k = (if P k then map_of kvs k else None)"
  by (induction kvs) auto

lemma kept_keys_public:
  "k \<in> fst ` set (filter (\<lambda>(k, v). \<not> is_internal_key k) items) \<Longrightarrow> \<not> is_internal_key k"
  by auto

lemma length_hex_bytes: "length (concat (map hex_byte bs)) = 2 * length bs"
  by (induction bs) (simp_all add: hex_byte_def)

lemma length_hexdigest: "length (hexdigest (w :: 'a::len word)) = 2 * (LENGTH('a) div 8)"
  unfolding hexdigest_def length_hex_bytes by (simp add: digest_bytes_def)

lemma hex_digit_range: "hex_digit n \<in> set ''0123456789abcdef''"
proof -
  have "n mod 16 < length ''0123456789abcdef''" by simp
  then show ?thesis unfolding hex_digit_def by (rule nth_mem)
qed

lemma hexdigest_chars: "set (hexdigest w) \<subseteq> set ''0123456789abcdef''"
  using hex_digit_range by (auto simp: hexdigest_def hex_byte_def)

section \<open>The discharge helpers and set_battery_mode\<close>

text \<open>
  C1, as the sources have it. On every backend among the sources,
  \<open>set_mode_avoid_discharge()\<close> returns what \<open>set_battery_mode("hold")\<close> returns and
  leaves the object as that call leaves it, and \<open>set_mode_allow_discharge()\<close> does so
  for \<open>set_battery_mode("normal")\<close>: on the null backend both return \<open>True\<close> and change
  nothing, on the Victron stub both raise \<open>NotImplementedError\<close>. The call-through
  itself is the body of the two abstract methods of \<open>BaseInverter\<close>, for any
  \<open>set_battery_mode\<close> of the object's class; a backend gets it only by delegating to
  \<open>super()\<close>, as the tests' \<open>MockInverter\<close> does, whose helpers are then the same call
  as its \<open>set_battery_mode\<close>, logger calls included. \<open>NullInverter\<close> and
  \<open>VictronInverter\<close> define both helpers themselves and do not call
  \<open>set_battery_mode\<close>.
\<close>

theorem discharge_helpers_agree_with_set_battery_mode:
  "returned (NullInverter_set_mode_avoid_discharge self)
     = returned (NullInverter_set_battery_mode self ''hold'')
   \<and> self_after (NullInverter_set_mode_avoid_discharge self)
     = self_after (NullInverter_set_battery_mode self ''hold'')
   \<and> returned (NullInverter_set_mode_allow_discharge self)
     = returned (NullInverter_set_battery_mode self ''normal'')
   \<and> self_after (NullInverter_set_mode_allow_discharge self)
     = self_after (NullInverter_set_battery_mode self ''normal'')
   \<and> VictronInverter_set_mode_avoid_discharge self = VictronInverter_set_battery_mode self ''hold''
   \<and> VictronInverter_set_mode_allow_discharge self
     = VictronInverter_set_battery_mode self ''normal''
   \<and> MockInverter_set_mode_avoid_discharge self = MockInverter_set_battery_mode self ''hold''
   \<and> MockInverter_set_mode_allow_discharge self = MockInverter_set_battery_mode self ''normal''
   \<and> attrs (self_after (MockInverter_set_mode_avoid_discharge self)) ''last_mode_set''
     = Some (PyStr ''hold'')
   \<and> attrs (self_after (MockInverter_set_mode_allow_discharge self)) ''last_mode_set''
     = Some (PyStr ''normal'')
   \<and> BaseInverter_set_mode_avoid_discharge set_battery_mode self = set_battery_mode self ''hold''
   \<and> BaseInverter_set_mode_allow_discharge set_battery_mode self
     = set_battery_mode self ''normal''
   \<and> returned (NullInverter_set_mode_avoid_discharge self) = Inr True
   \<and> returned (NullInverter_set_mode_allow_discharge self) = Inr True
   \<and> self_after (NullInverter_set_mode_avoid_discharge self) = self
   \<and> self_after (NullInverter_set_mode_allow_discharge self) = self
   \<and> returned (VictronInverter_set_mode_avoid_discharge self) = Inl NotImplementedError
   \<and> returned (VictronInverter_set_mode_allow_discharge self) = Inl NotImplementedError"
  by (simp add: null_defs victron_defs mock_defs)

text \<open>
  C1 as stated fails on the null backend. On the object the tests construct,
  \<open>set_mode_avoid_discharge()\<close> makes the logger call of its own body and none of
  \<open>set_battery_mode\<close>: it is not the same call as \<open>set_battery_mode("hold")\<close>.
\<close>

theorem null_avoid_discharge_is_no_call_through:
  "fst (NullInverter_init ascii_lower null_config_default) = Inr fresh_null
   \<and> log_calls (NullInverter_set_mode_avoid_discharge fresh_null)
       = [LogCall null_logger DEBUG
            ''[NullInverter] set_mode_avoid_discharge() called (no-op)'' []]
   \<and> log_calls (NullInverter_set_battery_mode fresh_null ''hold'')
       = [LogCall null_logger DEBUG
            ''[NullInverter] set_battery_mode(%s) called (no-op)'' [PyStr ''hold'']]
   \<and> NullInverter_set_mode_avoid_discharge fresh_null
       \<noteq> NullInverter_set_battery_mode fresh_null ''hold''"
  by (simp add: null_init_default null_defs)

section \<open>The factory\<close>

text \<open>
  C2, as the sources have it. Let the config's \<open>type\<close> entry be a text \<open>t\<close> (the empty
  text when the entry is absent), and let \<open>str_lower t\<close> be what \<open>str.lower()\<close> makes
  of it. If \<open>str_lower t\<close> is a key of the active registry, \<open>create_inverter\<close> returns
  what calling that registry's class on the config returns; if it is a key of the legacy
  registry only, what calling the legacy registry's class returns; if it is a key of
  neither, the call raises \<open>ValueError\<close> with the message built from \<open>str_lower t\<close>
  and the keys of the active registry followed by those of the legacy registry, and
  every key of the two registries occurs in that message. Calling a registered class
  returns an instance whose \<open>inverter_type\<close> is the class's name and whose \<open>config\<close> is
  the given one whenever the config's \<open>user\<close> entry is absent or a text: for
  \<open>NullInverter\<close> and \<open>VictronInverter\<close>, which define every abstract method of
  \<open>BaseInverter\<close>, by their code, and for \<open>FroniusV2\<close> and \<open>FroniusLegacy\<close> by their
  constructors as the spec describes them. The active registry is looked up first: for
  any two registries, a key of the active one selects the active one's class whatever
  the legacy one holds.
\<close>

theorem create_inverter_follows_registries:
  assumes t: "dict_get_default cfg ''type'' (PyStr []) = PyStr t"
  shows
    "(\<forall>c. map_of INVERTER_TYPES (str_lower t) = Some c \<longrightarrow>
        fst (create_inverter str_lower legacy_ctor modern_ctor cfg)
          = fst (instantiate str_lower legacy_ctor modern_ctor c cfg))
     \<and> (\<forall>c. map_of INVERTER_TYPES (str_lower t) = None
            \<and> map_of LEGACY_INVERTER_TYPES (str_lower t) = Some c \<longrightarrow>
        fst (create_inverter str_lower legacy_ctor modern_ctor cfg)
          = fst (instantiate str_lower legacy_ctor modern_ctor c cfg))
     \<and> (map_of INVERTER_TYPES (str_lower t) = None
          \<and> map_of LEGACY_INVERTER_TYPES (str_lower t) = None \<longrightarrow>
        fst (create_inverter str_lower legacy_ctor modern_ctor cfg)
          = Inl (ValueError (unknown_type_message (str_lower t)
                   (map fst INVERTER_TYPES @ map fst LEGACY_INVERTER_TYPES))))
     \<and> (\<forall>k \<in> set (map fst INVERTER_TYPES) \<union> set (map fst LEGACY_INVERTER_TYPES).
          sublist k (unknown_type_message (str_lower t)
                       (map fst INVERTER_TYPES @ map fst LEGACY_INVERTER_TYPES)))
     \<and> (\<forall>c u. c \<in> {NullInverter, VictronInverter}
            \<and> dict_get_default cfg ''user'' (PyStr ''customer'') = PyStr u \<longrightarrow>
        (\<exists>self. fst (instantiate str_lower legacy_ctor modern_ctor c cfg) = Inr self
            \<and> inverter_type self = class_name c \<and> config self = cfg))
     \<and> (\<forall>c u. c \<in> {FroniusV2, FroniusLegacy}
            \<and> dict_get_default cfg ''user'' (PyStr ''customer'') = PyStr u \<longrightarrow>
        (\<exists>self. fst (instantiate str_lower (FroniusLegacy_init str_lower)
                        (FroniusV2_init str_lower) c cfg) = Inr self
            \<and> inverter_type self = class_name c \<and> config self = cfg))
     \<and> list_all (\<lambda>m. m \<in> set NullInverter_methods) abstractmethods
     \<and> list_all (\<lambda>m. m \<in> set VictronInverter_methods) abstractmethods
     \<and> (\<forall>active legacy new c. map_of active (str_lower t) = Some c \<longrightarrow>
        fst (create_inverter_in str_lower active legacy new cfg) = fst (new c cfg))"
proof -
  have active: "\<forall>c. map_of INVERTER_TYPES (str_lower t) = Some c \<longrightarrow>
        fst (create_inverter str_lower legacy_ctor modern_ctor cfg)
          = fst (instantiate str_lower legacy_ctor modern_ctor c cfg)"
    using t by (simp add: create_inverter_def create_active)
  have legacy: "\<forall>c. map_of INVERTER_TYPES (str_lower t) = None
            \<and> map_of LEGACY_INVERTER_TYPES (str_lower t) = Some c \<longrightarrow>
        fst (create_inverter str_lower legacy_ctor modern_ctor cfg)
          = fst (instantiate str_lower legacy_ctor modern_ctor c cfg)"
    using t by (simp add: create_inverter_def create_legacy)
  have unknown: "map_of INVERTER_TYPES (str_lower t) = None
          \<and> map_of LEGACY_INVERTER_TYPES (str_lower t) = None \<longrightarrow>
        fst (create_inverter str_lower legacy_ctor modern_ctor cfg)
          = Inl (ValueError (unknown_type_message (str_lower t)
                   (map fst INVERTER_TYPES @ map fst LEGACY_INVERTER_TYPES)))"
    using t by (simp add: create_inverter_def create_unknown)
  have listed: "\<forall>k \<in> set (map fst INVERTER_TYPES) \<union> set (map fst LEGACY_INVERTER_TYPES).
          sublist k (unknown_type_message (str_lower t)
                       (map fst INVERTER_TYPES @ map fst LEGACY_INVERTER_TYPES))"
    by (intro ballI message_lists) simp
  have inst: "\<forall>c u. c \<in> {NullInverter, VictronInverter}
            \<and> dict_get_default cfg ''user'' (PyStr ''customer'') = PyStr u \<longrightarrow>
        (\<exists>self. fst (instantiate str_lower legacy_ctor modern_ctor c cfg) = Inr self
            \<and> inverter_type self = class_name c \<and> config self = cfg)"
    using base_init_ok[of cfg _ str_lower "''NullInverter''"]
      base_init_ok[of cfg _ str_lower "''VictronInverter''"]
    by (auto simp: abc_null abc_victron null_init_fst VictronInverter_init_def)
  have fronius: "\<forall>c u. c \<in> {FroniusV2, FroniusLegacy}
            \<and> dict_get_default cfg ''user'' (PyStr ''customer'') = PyStr u \<longrightarrow>
        (\<exists>self. fst (instantiate str_lower (FroniusLegacy_init str_lower)
                        (FroniusV2_init str_lower) c cfg) = Inr self
            \<and> inverter_type self = class_name c \<and> config self = cfg)"
    using fronius_legacy_init_ok[of cfg _ str_lower] fronius_v2_init_ok[of cfg _ str_lower]
    by auto
  have full: "list_all (\<lambda>m. m \<in> set NullInverter_methods) abstractmethods
     \<and> list_all (\<lambda>m. m \<in> set VictronInverter_methods) abstractmethods"
    by (simp add: NullInverter_methods_def VictronInverter_methods_def abstractmethods_def)
  have order: "\<forall>active legacy new c. map_of active (str_lower t) = Some c \<longrightarrow>
        fst (create_inverter_in str_lower active legacy new cfg) = fst (new c cfg)"
    using t by (simp add: create_active)
  from active legacy unknown listed inst fronius full order show ?thesis
    by (intro conjI) blast+
qed

text \<open>
  The theorem at three configs: \<open>null_config_default\<close> of the tests (also with a key
  that both registries hold), a deprecated name in mixed case, and a type no registry
  knows.
\<close>

theorem create_inverter_follows_registries_witness:
  "fst (create_inverter ascii_lower (FroniusLegacy_init ascii_lower)
          (FroniusV2_init ascii_lower) null_config_default) = Inr fresh_null
   \<and> inverter_type fresh_null = ''NullInverter''
   \<and> (\<exists>self. fst (instantiate ascii_lower (FroniusLegacy_init ascii_lower)
                     (FroniusV2_init ascii_lower) VictronInverter null_config_default)
                = Inr self
          \<and> inverter_type self = ''VictronInverter'')
   \<and> fst (create_inverter_in ascii_lower [(''default'', NullInverter)]
            [(''default'', VictronInverter)]
            (instantiate ascii_lower (FroniusLegacy_init ascii_lower)
               (FroniusV2_init ascii_lower)) null_config_default)
       = Inr fresh_null
   \<and> (\<exists>self. fst (create_inverter ascii_lower (FroniusLegacy_init ascii_lower)
                     (FroniusV2_init ascii_lower) [''type'' \<mapsto> PyStr ''Fronius_GEN24_v2''])
                = Inr self
          \<and> inverter_type self = ''FroniusV2'')
   \<and> fst (create_inverter ascii_lower (FroniusLegacy_init ascii_lower)
            (FroniusV2_init ascii_lower) [''type'' \<mapsto> PyStr ''sma''])
       = Inl (ValueError (''Unknown inverter type: '' @ [apostrophe] @ ''sma'' @ [apostrophe]
                @ ''. Supported types: victron, fronius_gen24, evcc, default, ''
                @ ''fronius_gen24_legacy, fronius_gen24_v2''))"
proof -
  let ?L = "FroniusLegacy_init ascii_lower"
  let ?M = "FroniusV2_init ascii_lower"
  let ?v2 = "[''type'' \<mapsto> PyStr ''Fronius_GEN24_v2''] :: config"
  let ?sma = "[''type'' \<mapsto> PyStr ''sma''] :: config"
  have a: "dict_get_default null_config_default ''type'' (PyStr []) = PyStr ''default''"
    by (simp add: null_config_default_def dict_get_default_def)
  have a': "map_of INVERTER_TYPES (ascii_lower ''default'') = Some NullInverter"
    by (simp add: INVERTER_TYPES_def eval_defs)
  have b: "dict_get_default ?v2 ''type'' (PyStr []) = PyStr ''Fronius_GEN24_v2''"
    by (simp add: dict_get_default_def)
  have b': "map_of INVERTER_TYPES (ascii_lower ''Fronius_GEN24_v2'') = None
            \<and> map_of LEGACY_INVERTER_TYPES (ascii_lower ''Fronius_GEN24_v2'') = Some FroniusV2"
    by (simp add: INVERTER_TYPES_def LEGACY_INVERTER_TYPES_def eval_defs)
  have c: "dict_get_default ?sma ''type'' (PyStr []) = PyStr ''sma''"
    by (simp add: dict_get_default_def)
  have c': "map_of INVERTER_TYPES (ascii_lower ''sma'') = None
            \<and> map_of LEGACY_INVERTER_TYPES (ascii_lower ''sma'') = None"
    by (simp add: INVERTER_TYPES_def LEGACY_INVERTER_TYPES_def eval_defs)
  note at_default = create_inverter_follows_registries[OF a,
      where str_lower = ascii_lower and legacy_ctor = ?L and modern_ctor = ?M]
  note at_v2 = create_inverter_follows_registries[OF b,
      where str_lower = ascii_lower and legacy_ctor = ?L and modern_ctor = ?M]
  note at_sma = create_inverter_follows_registries[OF c,
      where str_lower = ascii_lower and legacy_ctor = ?L and modern_ctor = ?M]
  from at_default[THEN conjunct1, rule_format, OF a']
  have 1: "fst (create_inverter ascii_lower ?L ?M null_config_default)
             = fst (instantiate ascii_lower ?L ?M NullInverter null_config_default)" .
  from at_v2[THEN conjunct2, THEN conjunct1, rule_format, OF b']
  have 2: "fst (create_inverter ascii_lower ?L ?M ?v2)
             = fst (instantiate ascii_lower ?L ?M FroniusV2 ?v2)" .
  from at_sma[THEN conjunct2, THEN conjunct2, THEN conjunct1, rule_format, OF c']
  have 3: "fst (create_inverter ascii_lower ?L ?M ?sma)
       = Inl (ValueError (unknown_type_message (ascii_lower ''sma'')
                (map fst INVERTER_TYPES @ map fst LEGACY_INVERTER_TYPES)))" .
  have r1: "fst (create_inverter ascii_lower ?L ?M null_config_default) = Inr fresh_null"
    unfolding 1 by (simp add: abc_null null_init_default)
  have uv: "FroniusV2 \<in> {FroniusV2, FroniusLegacy}
          \<and> dict_get_default ?v2 ''user'' (PyStr ''customer'') = PyStr ''customer''"
    by (simp add: dict_get_default_def)
  from at_v2[THEN conjunct2, THEN conjunct2, THEN conjunct2, THEN conjunct2,
      THEN conjunct2, THEN conjunct1, rule_format, OF uv]
  obtain self2 where "fst (instantiate ascii_lower ?L ?M FroniusV2 ?v2) = Inr self2"
    "inverter_type self2 = class_name FroniusV2"
    by blast
  then have r2: "\<exists>self. fst (create_inverter ascii_lower ?L ?M ?v2) = Inr self
          \<and> inverter_type self = ''FroniusV2''"
    unfolding 2 by simp
  have m: "unknown_type_message (ascii_lower ''sma'')
             (map fst INVERTER_TYPES @ map fst LEGACY_INVERTER_TYPES)
     = ''Unknown inverter type: '' @ [apostrophe] @ ''sma'' @ [apostrophe]
                @ ''. Supported types: victron, fronius_gen24, evcc, default, ''
                @ ''fronius_gen24_legacy, fronius_gen24_v2''"
    by (simp add: unknown_type_message_def INVERTER_TYPES_def LEGACY_INVERTER_TYPES_def
        eval_defs)
  have n: "inverter_type fresh_null = ''NullInverter''" by (simp add: fresh_null_def)
  have u: "VictronInverter \<in> {NullInverter, VictronInverter}
          \<and> dict_get_default null_config_default ''user'' (PyStr ''customer'')
              = PyStr ''customer''"
    by (simp add: null_config_default_def dict_get_default_def)
  from at_default[THEN conjunct2, THEN conjunct2, THEN conjunct2, THEN conjunct2,
      THEN conjunct1, rule_format, OF u]
  obtain self1 where "fst (instantiate ascii_lower ?L ?M VictronInverter null_config_default)
      = Inr self1" "inverter_type self1 = class_name VictronInverter"
    by blast
  then have v: "\<exists>self. fst (instantiate ascii_lower ?L ?M VictronInverter
                     null_config_default) = Inr self
          \<and> inverter_type self = ''VictronInverter''"
    by simp
  have l: "ascii_lower ''default'' = ''default''" by (simp add: eval_defs)
  have k: "map_of [(''default'', NullInverter)] (ascii_lower ''default'') = Some NullInverter"
    by (simp add: l)
  from at_default[THEN conjunct2, THEN conjunct2, THEN conjunct2, THEN conjunct2,
      THEN conjunct2, THEN conjunct2, THEN conjunct2, THEN conjunct2, rule_format,
      of "[(''default'', NullInverter)]" NullInverter "[(''default'', VictronInverter)]"
        "instantiate ascii_lower ?L ?M", OF k]
  have o: "fst (create_inverter_in ascii_lower [(''default'', NullInverter)]
            [(''default'', VictronInverter)] (instantiate ascii_lower ?L ?M)
            null_config_default)
       = fst (instantiate ascii_lower ?L ?M NullInverter null_config_default)" .
  have r4: "fst (create_inverter_in ascii_lower [(''default'', NullInverter)]
            [(''default'', VictronInverter)] (instantiate ascii_lower ?L ?M)
            null_config_default)
       = Inr fresh_null"
    unfolding o by (simp add: abc_null null_init_default)
  from r1 n v r4 r2 3 show ?thesis unfolding m by (intro conjI)
qed

text \<open>
  C2 as stated fails: the type \<open>default\<close> is registered, yet on a config whose \<open>user\<close>
  entry is \<open>None\<close> the call raises \<open>AttributeError\<close> out of \<open>BaseInverter.__init__\<close>
  instead of returning an instance.
\<close>

theorem create_inverter_user_not_text:
  "map_of INVERTER_TYPES (ascii_lower ''default'') = Some NullInverter
   \<and> fst (create_inverter ascii_lower (FroniusLegacy_init ascii_lower)
            (FroniusV2_init ascii_lower)
            [''type'' \<mapsto> PyStr ''default'', ''user'' \<mapsto> PyNone]) = Inl AttributeError"
proof -
  let ?L = "FroniusLegacy_init ascii_lower"
  let ?M = "FroniusV2_init ascii_lower"
  let ?cfg = "[''type'' \<mapsto> PyStr ''default'', ''user'' \<mapsto> PyNone] :: config"
  have l: "ascii_lower ''default'' = ''default''" by (simp add: eval_defs)
  have m: "map_of INVERTER_TYPES ''default'' = Some NullInverter"
    by (simp add: INVERTER_TYPES_def)
  have t: "dict_get_default ?cfg ''type'' (PyStr []) = PyStr ''default''"
    by (simp add: dict_get_default_def)
  have u: "dict_get_default ?cfg ''user'' (PyStr ''customer'') = PyNone"
    by (simp add: dict_get_default_def)
  have "fst (create_inverter ascii_lower ?L ?M ?cfg)
        = fst (instantiate ascii_lower ?L ?M NullInverter ?cfg)"
    unfolding create_inverter_def using t m l by (simp add: create_active)
  also have "\<dots> = Inl AttributeError"
    by (simp add: abc_null null_init_fst BaseInverter_init_def u)
  finally show ?thesis using l m by simp
qed

section \<open>Calls before authentication\<close>

text \<open>
  C3, as the sources have it. No backend among the sources looks at
  \<open>is_authenticated\<close> before a control or telemetry call, and none of them has an
  error for an unauthenticated call. While \<open>is_authenticated\<close> is \<open>False\<close>, every
  control and telemetry call of the null backend returns its usual result (\<open>True\<close>,
  \<open>None\<close> or the empty dict); whatever the flag is, every such call of the Victron stub
  raises \<open>NotImplementedError\<close>.
\<close>

theorem calls_ignore_is_authenticated:
  "returned (NullInverter_set_battery_mode (self\<lparr>is_authenticated := False\<rparr>) mode) = Inr True
   \<and> returned (NullInverter_set_mode_avoid_discharge (self\<lparr>is_authenticated := False\<rparr>))
        = Inr True
   \<and> returned (NullInverter_set_mode_allow_discharge (self\<lparr>is_authenticated := False\<rparr>))
        = Inr True
   \<and> returned (NullInverter_set_mode_force_charge (self\<lparr>is_authenticated := False\<rparr>) w)
        = Inr True
   \<and> returned (NullInverter_set_allow_grid_charging (self\<lparr>is_authenticated := False\<rparr>) v)
        = Inr ()
   \<and> returned (NullInverter_get_battery_info (self\<lparr>is_authenticated := False\<rparr>)) = Inr []
   \<and> returned (NullInverter_fetch_inverter_data (self\<lparr>is_authenticated := False\<rparr>)) = Inr []
   \<and> returned (VictronInverter_set_battery_mode (self\<lparr>is_authenticated := b\<rparr>) mode)
        = Inl NotImplementedError
   \<and> returned (VictronInverter_set_mode_avoid_discharge (self\<lparr>is_authenticated := b\<rparr>))
        = Inl NotImplementedError
   \<and> returned (VictronInverter_set_mode_allow_discharge (self\<lparr>is_authenticated := b\<rparr>))
        = Inl NotImplementedError
   \<and> returned (VictronInverter_set_mode_force_charge (self\<lparr>is_authenticated := b\<rparr>) w)
        = Inl NotImplementedError
   \<and> returned (VictronInverter_set_allow_grid_charging (self\<lparr>is_authenticated := b\<rparr>) v)
        = Inl NotImplementedError
   \<and> returned (VictronInverter_get_battery_info (self\<lparr>is_authenticated := b\<rparr>))
        = Inl NotImplementedError
   \<and> returned (VictronInverter_fetch_inverter_data (self\<lparr>is_authenticated := b\<rparr>))
        = Inl NotImplementedError"
  by (simp add: null_defs victron_defs)

text \<open>
  C3 as stated fails: the null backend the tests construct is not authenticated, and
  \<open>set_battery_mode("hold")\<close> and \<open>get_battery_info()\<close> on it succeed.
\<close>

theorem null_accepts_unauthenticated_calls:
  "fst (NullInverter_init ascii_lower null_config_default) = Inr fresh_null
   \<and> is_authenticated fresh_null = False
   \<and> returned (NullInverter_set_battery_mode fresh_null ''hold'') = Inr True
   \<and> returned (NullInverter_get_battery_info fresh_null) = Inr []"
  by (simp add: null_init_default null_defs) (simp add: fresh_null_def)

section \<open>Forced charging\<close>

text \<open>
  C4, as the sources have it. No backend among the sources sends a power value to a
  device. On the null backend \<open>set_mode_force_charge(power)\<close> returns \<open>True\<close> for every
  power, whatever the two ceilings are, without raising and without changing the object;
  its one effect is a logger call that carries the requested power as it was given. On
  the Victron stub the call raises \<open>NotImplementedError\<close> for every power and does
  nothing else. So no value above the ceilings is ever sent, and none below them either.
\<close>

theorem force_charge_sends_nothing:
  "returned (NullInverter_set_mode_force_charge self w) = Inr True
   \<and> self_after (NullInverter_set_mode_force_charge self w) = self
   \<and> log_calls (NullInverter_set_mode_force_charge self w)
       = [LogCall null_logger DEBUG
            ''[NullInverter] set_mode_force_charge(%d W) called (no-op)'' [PyInt w]]
   \<and> returned (NullInverter_set_mode_force_charge
                  (self\<lparr>max_grid_charge_rate := PyInt g, max_pv_charge_rate := PyInt pv\<rparr>) w)
       = Inr True
   \<and> returned (VictronInverter_set_mode_force_charge self w) = Inl NotImplementedError
   \<and> self_after (VictronInverter_set_mode_force_charge self w) = self
   \<and> log_calls (VictronInverter_set_mode_force_charge self w) = []"
  by (simp add: null_defs victron_defs)

text \<open>
  C4 as stated fails: the Victron backend of the tests has both ceilings configured,
  10000 W from the grid and 15000 W from PV, and a request of 20000 W is not capped but
  answered with \<open>NotImplementedError\<close>.
\<close>

theorem victron_force_charge_over_ceiling_raises:
  "fst (VictronInverter_init ascii_lower victron_config) = Inr fresh_victron
   \<and> max_grid_charge_rate fresh_victron = PyInt 10000
   \<and> max_pv_charge_rate fresh_victron = PyInt 15000
   \<and> returned (VictronInverter_set_mode_force_charge fresh_victron 20000)
       = Inl NotImplementedError"
  by (simp add: victron_init_config victron_defs) (simp add: fresh_victron_def)

section \<open>The telemetry normalizer\<close>

text \<open>
  C5. Applied to a mapping, \<open>strip_dict\<close> returns a mapping none of whose keys starts
  with an underscore, in which every other key has the value it had, and in which the
  keys with an underscore are gone; applied to a text, a number, a truth value or
  \<open>None\<close> it returns its argument.
\<close>

theorem strip_dict_keeps_public_items:
  "(\<exists>kept. strip_dict (PyDict items) = PyDict kept
      \<and> (\<forall>k \<in> fst ` set kept. \<not> is_internal_key k)
      \<and> (\<forall>k. \<not> is_internal_key k \<longrightarrow> map_of kept k = map_of items k)
      \<and> (\<forall>k. is_internal_key k \<longrightarrow> map_of kept k = None))
   \<and> strip_dict (PyStr s) = PyStr s
   \<and> strip_dict (PyInt i) = PyInt i
   \<and> strip_dict (PyBool b) = PyBool b
   \<and> strip_dict PyNone = PyNone"
proof -
  let ?kept = "filter (\<lambda>(k, v). \<not> is_internal_key k) items"
  have 1: "strip_dict (PyDict items) = PyDict ?kept" by (simp add: strip_dict_def)
  have 2: "\<forall>k \<in> fst ` set ?kept. \<not> is_internal_key k"
    using kept_keys_public by blast
  have 3: "\<forall>k. \<not> is_internal_key k \<longrightarrow> map_of ?kept k = map_of items k"
    by (simp add: map_of_filter_key)
  have 4: "\<forall>k. is_internal_key k \<longrightarrow> map_of ?kept k = None"
    by (simp add: map_of_filter_key)
  have 5: "strip_dict (PyStr s) = PyStr s" "strip_dict (PyInt i) = PyInt i"
    "strip_dict (PyBool b) = PyBool b" "strip_dict PyNone = PyNone"
    by (simp_all add: strip_dict_def)
  from 1 2 3 4 have "\<exists>kept. strip_dict (PyDict items) = PyDict kept
      \<and> (\<forall>k \<in> fst ` set kept. \<not> is_internal_key k)
      \<and> (\<forall>k. \<not> is_internal_key k \<longrightarrow> map_of kept k = map_of items k)
      \<and> (\<forall>k. is_internal_key k \<longrightarrow> map_of kept k = None)"
    by (intro exI[of _ ?kept] conjI)
  with 5 show ?thesis by (intro conjI)
qed

text \<open>The theorem at the dict and the three other values of the tests.\<close>

theorem strip_dict_keeps_public_items_witness:
  "(\<exists>kept. strip_dict (PyDict test_dict) = PyDict kept
      \<and> map_of kept ''key'' = Some (PyStr ''value'')
      \<and> map_of kept ''public'' = Some (PyStr ''visible'')
      \<and> map_of kept ''_private'' = None)
   \<and> strip_dict (PyStr ''string'') = PyStr ''string''
   \<and> strip_dict (PyInt 123) = PyInt 123
   \<and> strip_dict PyNone = PyNone"
proof -
  have pub: "\<not> is_internal_key ''key''" "\<not> is_internal_key ''public''"
    and priv: "is_internal_key ''_private''"
    by (simp_all add: is_internal_key_def)
  have look: "map_of test_dict ''key'' = Some (PyStr ''value'')"
    "map_of test_dict ''public'' = Some (PyStr ''visible'')"
    by (simp_all add: test_dict_def)
  note t = strip_dict_keeps_public_items[of test_dict "''string''" 123 True]
  from t obtain kept where k: "strip_dict (PyDict test_dict) = PyDict kept"
    and same: "\<forall>k. \<not> is_internal_key k \<longrightarrow> map_of kept k = map_of test_dict k"
    and gone: "\<forall>k. is_internal_key k \<longrightarrow> map_of kept k = None"
    by blast
  from same pub look have "map_of kept ''key'' = Some (PyStr ''value'')"
    "map_of kept ''public'' = Some (PyStr ''visible'')" by metis+
  moreover from gone priv have "map_of kept ''_private'' = None" by blast
  ultimately have "\<exists>kept. strip_dict (PyDict test_dict) = PyDict kept
      \<and> map_of kept ''key'' = Some (PyStr ''value'')
      \<and> map_of kept ''public'' = Some (PyStr ''visible'')
      \<and> map_of kept ''_private'' = None"
    using k by blast
  with t show ?thesis by blast
qed

section \<open>The null backend\<close>

text \<open>
  C6. On the null backend, for every object state and every argument:
  \<open>connect_inverter()\<close> and \<open>disconnect_inverter()\<close> return \<open>True\<close>,
  \<open>get_battery_info()\<close> and \<open>fetch_inverter_data()\<close> return the empty dict,
  \<open>supports_extended_monitoring()\<close> returns \<open>False\<close>, and \<open>set_battery_mode\<close>,
  \<open>set_mode_force_charge\<close> and \<open>set_allow_grid_charging\<close> return without an exception
  (\<open>True\<close>, \<open>True\<close> and \<open>None\<close>), as do the two discharge helpers (\<open>True\<close>). None
  of the calls changes the object, and the only effect of each is at most one call of
  the module's logger: no request leaves the process.
\<close>

theorem null_backend_is_a_no_op:
  "returned (NullInverter_connect_inverter self) = Inr True
   \<and> returned (NullInverter_disconnect_inverter self) = Inr True
   \<and> returned (NullInverter_get_battery_info self) = Inr []
   \<and> returned (NullInverter_fetch_inverter_data self) = Inr []
   \<and> returned (NullInverter_supports_extended_monitoring self) = Inr False
   \<and> returned (NullInverter_set_battery_mode self mode) = Inr True
   \<and> returned (NullInverter_set_mode_force_charge self charge_power_w) = Inr True
   \<and> returned (NullInverter_set_allow_grid_charging self v) = Inr ()
   \<and> returned (NullInverter_set_mode_avoid_discharge self) = Inr True
   \<and> returned (NullInverter_set_mode_allow_discharge self) = Inr True
   \<and> self_after (NullInverter_connect_inverter self) = self
   \<and> self_after (NullInverter_disconnect_inverter self) = self
   \<and> self_after (NullInverter_get_battery_info self) = self
   \<and> self_after (NullInverter_fetch_inverter_data self) = self
   \<and> self_after (NullInverter_supports_extended_monitoring self) = self
   \<and> self_after (NullInverter_set_battery_mode self mode) = self
   \<and> self_after (NullInverter_set_mode_force_charge self charge_power_w) = self
   \<and> self_after (NullInverter_set_allow_grid_charging self v) = self
   \<and> self_after (NullInverter_set_mode_avoid_discharge self) = self
   \<and> self_after (NullInverter_set_mode_allow_discharge self) = self
   \<and> length (log_calls (NullInverter_connect_inverter self)) \<le> 1
   \<and> length (log_calls (NullInverter_disconnect_inverter self)) \<le> 1
   \<and> length (log_calls (NullInverter_get_battery_info self)) \<le> 1
   \<and> length (log_calls (NullInverter_fetch_inverter_data self)) \<le> 1
   \<and> length (log_calls (NullInverter_supports_extended_monitoring self)) \<le> 1
   \<and> length (log_calls (NullInverter_set_battery_mode self mode)) \<le> 1
   \<and> length (log_calls (NullInverter_set_mode_force_charge self charge_power_w)) \<le> 1
   \<and> length (log_calls (NullInverter_set_allow_grid_charging self v)) \<le> 1
   \<and> length (log_calls (NullInverter_set_mode_avoid_discharge self)) \<le> 1
   \<and> length (log_calls (NullInverter_set_mode_allow_discharge self)) \<le> 1"
  by (simp add: null_defs)

section \<open>The hash helpers\<close>

text \<open>
  C7. Whatever the digest algorithms compute, the helper of the legacy module and the
  two helpers of the modern module are functions of their input alone: the MD5 helpers
  return 32 and the SHA-256 helper 64 characters, each a lowercase hexadecimal digit,
  and a text gives the digest its UTF-8 bytes give. Nothing but the input and the digest
  algorithm enters the result.
\<close>

theorem hash_helpers_fixed_length_hex:
  "length (hash_utf8 md5 x) = 32
   \<and> length (hash_utf8_md5 md5 x) = 32
   \<and> length (hash_utf8_sha256 sha256 x) = 64
   \<and> set (hash_utf8 md5 x) \<subseteq> set ''0123456789abcdef''
   \<and> set (hash_utf8_md5 md5 x) \<subseteq> set ''0123456789abcdef''
   \<and> set (hash_utf8_sha256 sha256 x) \<subseteq> set ''0123456789abcdef''
   \<and> hash_utf8 md5 x = hash_utf8 md5 (Bytes (to_bytes x))
   \<and> hash_utf8_md5 md5 x = hash_utf8_md5 md5 (Bytes (to_bytes x))
   \<and> hash_utf8_sha256 sha256 x = hash_utf8_sha256 sha256 (Bytes (to_bytes x))"
  using hexdigest_chars[of "md5 (to_bytes x)"] hexdigest_chars[of "sha256 (to_bytes x)"]
  by (simp add: hash_utf8_def hash_utf8_md5_def hash_utf8_sha256_def length_hexdigest
      to_bytes_def)

section \<open>The authentication session\<close>

text \<open>
  C8. A new session has its nonce-use counter at 1, \<open>subsequent_login\<close> false and no
  login attempt counted. With a cap that allows an attempt, two logins in a row on a new
  session that the server accepts carry the counter values 1 and 2, and after the first
  of them \<open>subsequent_login\<close> is true. In general every authenticated request carries
  the current counter and leaves it one higher, and an accepted login on a session below
  the cap carries the current counter, leaves it strictly higher, sets
  \<open>subsequent_login\<close> and resets the attempt counter.
\<close>

theorem nonce_counter_increases:
  "ncvalue_num (new_session alg) = 1
   \<and> subsequent_login (new_session alg) = False
   \<and> login_attempts (new_session alg) = 0
   \<and> (0 < cap \<longrightarrow>
        login_result (authenticate cap Accepted (new_session alg)) = Inr True
        \<and> nc_sent (authenticate cap Accepted (new_session alg)) = Some 1
        \<and> subsequent_login (session_after (authenticate cap Accepted (new_session alg)))
        \<and> login_result (authenticate cap Accepted
             (session_after (authenticate cap Accepted (new_session alg)))) = Inr True
        \<and> nc_sent (authenticate cap Accepted
             (session_after (authenticate cap Accepted (new_session alg)))) = Some 2)
   \<and> fst (authenticated_request s) = ncvalue_num s
   \<and> ncvalue_num (snd (authenticated_request s)) = ncvalue_num s + 1
   \<and> (login_attempts s < cap \<longrightarrow>
        nc_sent (authenticate cap Accepted s) = Some (ncvalue_num s)
        \<and> ncvalue_num s < ncvalue_num (session_after (authenticate cap Accepted s))
        \<and> subsequent_login (session_after (authenticate cap Accepted s))
        \<and> login_attempts (session_after (authenticate cap Accepted s)) = 0)"
  by (simp add: new_session_def authenticate_def authenticated_request_def)

text \<open>The theorem at a cap of three attempts and a new session of the modern backend.\<close>

theorem nonce_counter_increases_witness:
  "(0::int) < 3
   \<and> login_attempts (new_session SHA256) < 3
   \<and> nc_sent (authenticate 3 Accepted (new_session SHA256)) = Some 1
   \<and> nc_sent (authenticate 3 Accepted
        (session_after (authenticate 3 Accepted (new_session SHA256)))) = Some 2
   \<and> subsequent_login (session_after (authenticate 3 Accepted (new_session SHA256)))"
  using nonce_counter_increases[of SHA256 3 "new_session SHA256"] by simp

section \<open>The Victron stub\<close>

text \<open>
  C9. Every contract method of \<open>VictronInverter\<close> raises \<open>NotImplementedError\<close>, for
  every object state and every argument: it never returns, so in particular never
  returns the \<open>False\<close> by which the contract reports a failed connection or a rejected
  command, and it raises no other exception.
\<close>

theorem victron_stub_raises_not_implemented:
  "returned (VictronInverter_initialize self) = Inl NotImplementedError
   \<and> returned (VictronInverter_connect_inverter self) = Inl NotImplementedError
   \<and> returned (VictronInverter_disconnect_inverter self) = Inl NotImplementedError
   \<and> returned (VictronInverter_set_battery_mode self mode) = Inl NotImplementedError
   \<and> returned (VictronInverter_set_mode_avoid_discharge self) = Inl NotImplementedError
   \<and> returned (VictronInverter_set_mode_allow_discharge self) = Inl NotImplementedError
   \<and> returned (VictronInverter_set_mode_force_charge self w) = Inl NotImplementedError
   \<and> returned (VictronInverter_set_allow_grid_charging self v) = Inl NotImplementedError
   \<and> returned (VictronInverter_get_battery_info self) = Inl NotImplementedError
   \<and> returned (VictronInverter_fetch_inverter_data self) = Inl NotImplementedError
   \<and> returned (VictronInverter_connect_inverter self) \<noteq> Inr False
   \<and> returned (VictronInverter_disconnect_inverter self) \<noteq> Inr False
   \<and> returned (VictronInverter_set_battery_mode self mode) \<noteq> Inr False
   \<and> returned (VictronInverter_set_mode_force_charge self w) \<noteq> Inr False"
  by (simp add: victron_defs)

section \<open>Who sets is_authenticated\<close>

text \<open>
  C10. An object that the constructor of a concrete backend returns has
  \<open>is_authenticated\<close> false: that of \<open>NullInverter\<close>, of \<open>VictronInverter\<close> and of the
  tests' \<open>MockInverter\<close> by their code, that of \<open>FroniusV2\<close> and of \<open>FroniusLegacy\<close>
  by their constructors as the spec describes them, and so every object the factory
  returns. \<open>authenticate()\<close> of the base class and \<open>initialize()\<close> of the null backend
  set it; every other method of the three classes among the sources, and every other
  method they inherit, leaves it as it was.
\<close>

theorem only_authenticate_sets_is_authenticated:
  "(\<forall>self. fst (NullInverter_init str_lower cfg) = Inr self \<longrightarrow> \<not> is_authenticated self)
   \<and> (\<forall>self. fst (VictronInverter_init str_lower cfg) = Inr self \<longrightarrow> \<not> is_authenticated self)
   \<and> (\<forall>self. fst (MockInverter_init str_lower cfg) = Inr self \<longrightarrow> \<not> is_authenticated self)
   \<and> (\<forall>self. fst (FroniusV2_init str_lower cfg) = Inr self \<longrightarrow> \<not> is_authenticated self)
   \<and> (\<forall>self. fst (FroniusLegacy_init str_lower cfg) = Inr self \<longrightarrow> \<not> is_authenticated self)
   \<and> (\<forall>self. fst (create_inverter str_lower (FroniusLegacy_init str_lower)
                     (FroniusV2_init str_lower) cfg) = Inr self
          \<longrightarrow> \<not> is_authenticated self)
   \<and> is_authenticated (self_after (BaseInverter_authenticate self))
   \<and> is_authenticated (self_after (NullInverter_initialize self))
   \<and> is_authenticated (self_after (NullInverter_connect_inverter self)) = is_authenticated self
   \<and> is_authenticated (self_after (NullInverter_disconnect_inverter self)) = is_authenticated self
   \<and> is_authenticated (self_after (NullInverter_set_battery_mode self mode)) = is_authenticated self
   \<and> is_authenticated (self_after (NullInverter_set_mode_avoid_discharge self)) = is_authenticated self
   \<and> is_authenticated (self_after (NullInverter_set_mode_allow_discharge self)) = is_authenticated self
   \<and> is_authenticated (self_after (NullInverter_set_mode_force_charge self w)) = is_authenticated self
   \<and> is_authenticated (self_after (NullInverter_set_allow_grid_charging self v)) = is_authenticated self
   \<and> is_authenticated (self_after (NullInverter_get_battery_info self)) = is_authenticated self
   \<and> is_authenticated (self_after (NullInverter_fetch_inverter_data self)) = is_authenticated self
   \<and> is_authenticated (self_after (NullInverter_supports_extended_monitoring self)) = is_authenticated self
   \<and> is_authenticated (self_after (VictronInverter_initialize self)) = is_authenticated self
   \<and> is_authenticated (self_after (VictronInverter_connect_inverter self)) = is_authenticated self
   \<and> is_authenticated (self_after (VictronInverter_disconnect_inverter self)) = is_authenticated self
   \<and> is_authenticated (self_after (VictronInverter_set_battery_mode self mode)) = is_authenticated self
   \<and> is_authenticated (self_after (VictronInverter_set_mode_avoid_discharge self)) = is_authenticated self
   \<and> is_authenticated (self_after (VictronInverter_set_mode_allow_discharge self)) = is_authenticated self
   \<and> is_authenticated (self_after (VictronInverter_set_mode_force_charge self w)) = is_authenticated self
   \<and> is_authenticated (self_after (VictronInverter_set_allow_grid_charging self v)) = is_authenticated self
   \<and> is_authenticated (self_after (VictronInverter_get_battery_info self)) = is_authenticated self
   \<and> is_authenticated (self_after (VictronInverter_fetch_inverter_data self)) = is_authenticated self
   \<and> is_authenticated (self_after (MockInverter_initialize self)) = is_authenticated self
   \<and> is_authenticated (self_after (MockInverter_connect_inverter self)) = is_authenticated self
   \<and> is_authenticated (self_after (MockInverter_disconnect_inverter self)) = is_authenticated self
   \<and> is_authenticated (self_after (MockInverter_set_battery_mode self mode)) = is_authenticated self
   \<and> is_authenticated (self_after (MockInverter_set_mode_avoid_discharge self)) = is_authenticated self
   \<and> is_authenticated (self_after (MockInverter_set_mode_allow_discharge self)) = is_authenticated self
   \<and> is_authenticated (self_after (MockInverter_set_mode_force_charge self w)) = is_authenticated self
   \<and> is_authenticated (self_after (MockInverter_set_allow_grid_charging self v)) = is_authenticated self
   \<and> is_authenticated (self_after (MockInverter_get_battery_info self)) = is_authenticated self
   \<and> is_authenticated (self_after (MockInverter_fetch_inverter_data self)) = is_authenticated self
   \<and> is_authenticated (self_after (BaseInverter_api_set_max_pv_charge_rate self w)) = is_authenticated self
   \<and> is_authenticated (self_after (BaseInverter_supports_extended_monitoring self)) = is_authenticated self
   \<and> is_authenticated (self_after (BaseInverter_disconnect self)) = is_authenticated self
   \<and> is_authenticated (self_after (BaseInverter_shutdown BaseInverter_disconnect self))
       = is_authenticated self"
proof -
  have ctor: "(\<forall>self. fst (NullInverter_init str_lower cfg) = Inr self \<longrightarrow> \<not> is_authenticated self)
   \<and> (\<forall>self. fst (VictronInverter_init str_lower cfg) = Inr self \<longrightarrow> \<not> is_authenticated self)
   \<and> (\<forall>self. fst (MockInverter_init str_lower cfg) = Inr self \<longrightarrow> \<not> is_authenticated self)"
    using base_init_unauth
    by (simp add: null_init_fst VictronInverter_init_def MockInverter_init_def)
  have fronius: "(\<forall>self. fst (FroniusV2_init str_lower cfg) = Inr self \<longrightarrow> \<not> is_authenticated self)
   \<and> (\<forall>self. fst (FroniusLegacy_init str_lower cfg) = Inr self \<longrightarrow> \<not> is_authenticated self)"
    using fronius_v2_init_unauth fronius_legacy_init_unauth by blast
  have factory: "\<forall>self. fst (create_inverter str_lower (FroniusLegacy_init str_lower)
                     (FroniusV2_init str_lower) cfg) = Inr self
          \<longrightarrow> \<not> is_authenticated self"
  proof (intro allI impI)
    fix self
    assume "fst (create_inverter str_lower (FroniusLegacy_init str_lower)
                     (FroniusV2_init str_lower) cfg) = Inr self"
    then obtain c where "fst (instantiate str_lower (FroniusLegacy_init str_lower)
                     (FroniusV2_init str_lower) c cfg) = Inr self"
      unfolding create_inverter_def
      using create_returns_an_instance_of_new by blast
    then show "\<not> is_authenticated self" by (rule instantiate_unauth)
  qed
  show ?thesis
    by (intro conjI) (simp_all add: ctor fronius factory null_defs victron_defs mock_defs base_defs)
qed

text \<open>
  The theorem at the null backend the tests construct, before and after
  \<open>initialize()\<close>, and at a legacy Fronius backend out of the factory.
\<close>

theorem only_authenticate_sets_is_authenticated_witness:
  "fst (NullInverter_init ascii_lower null_config_default) = Inr fresh_null
   \<and> \<not> is_authenticated fresh_null
   \<and> is_authenticated (self_after (NullInverter_initialize fresh_null))
   \<and> (\<exists>self. fst (FroniusLegacy_init ascii_lower
                     [''type'' \<mapsto> PyStr ''fronius_gen24_legacy'',
                      ''address'' \<mapsto> PyStr ''192.168.1.100'']) = Inr self
          \<and> \<not> is_authenticated self)"
proof -
  let ?cfg = "[''type'' \<mapsto> PyStr ''fronius_gen24_legacy'',
               ''address'' \<mapsto> PyStr ''192.168.1.100''] :: config"
  note at_null = only_authenticate_sets_is_authenticated[
      where str_lower = ascii_lower and cfg = null_config_default and self = fresh_null]
  note at_legacy = only_authenticate_sets_is_authenticated[
      where str_lower = ascii_lower and cfg = ?cfg and self = fresh_null]
  from at_null[THEN conjunct1, rule_format, OF null_init_default]
  have 1: "\<not> is_authenticated fresh_null" .
  from at_null[THEN conjunct2, THEN conjunct2, THEN conjunct2, THEN conjunct2,
      THEN conjunct2, THEN conjunct2, THEN conjunct2, THEN conjunct1]
  have 2: "is_authenticated (self_after (NullInverter_initialize fresh_null))" .
  have "dict_get_default ?cfg ''user'' (PyStr ''customer'') = PyStr ''customer''"
    by (simp add: dict_get_default_def)
  from fronius_legacy_init_ok[OF this, of ascii_lower]
  obtain self where s: "fst (FroniusLegacy_init ascii_lower ?cfg) = Inr self" by blast
  from at_legacy[THEN conjunct2, THEN conjunct2, THEN conjunct2, THEN conjunct2,
      THEN conjunct1, rule_format, OF s]
  have "\<not> is_authenticated self" .
  with s have 3: "\<exists>self. fst (FroniusLegacy_init ascii_lower ?cfg) = Inr self
          \<and> \<not> is_authenticated self" by blast
  from null_init_default 1 2 3 show ?thesis by (intro conjI)
qed

end
